theory Spec2Isabelle
  imports Main
begin

section \<open>Values of the host language\<close>

text \<open>
  The values that cross the interfaces of the template: request bodies, response
  payloads and the objects handed to the schema validators. An object is an association
  list in insertion order (its keys are distinct, and a lookup takes the first entry of a
  key); reading a property that is not there yields \<open>JUndefined\<close>, as property access
  does in the source language.
\<close>

datatype jvalue =
    JUndefined
  | JNull
  | JBool bool
  | JNum int
  | JStr string
  | JArr "jvalue list"
  | JObj "(string \<times> jvalue) list"

definition jget :: "(string \<times> jvalue) list \<Rightarrow> string \<Rightarrow> jvalue" where
  "jget kvs k = (case map_of kvs k of None \<Rightarrow> JUndefined | Some v \<Rightarrow> v)"

text \<open>
  The process environment: named string values. \<open>penv_get\<close> is \<open>process.env.NAME\<close>,
  which is \<open>None\<close> (undefined) for a variable that is not set.
\<close>

type_synonym process_env = "(string \<times> string) list"

definition penv_get :: "process_env \<Rightarrow> string \<Rightarrow> string option" where
  "penv_get penv name = map_of penv name"

text \<open>
  \<open>a || b\<close> on an optional string: the left operand when it is truthy (defined and
  not the empty string), the right operand otherwise.
\<close>

definition str_or :: "string option \<Rightarrow> string \<Rightarrow> string" where
  "str_or a b = (case a of None \<Rightarrow> b | Some s \<Rightarrow> if s = [] then b else s)"

text \<open>The number of slashes a string ends with; used to count the slashes of a joint.\<close>

definition trailing_slashes :: "string \<Rightarrow> nat" where
  "trailing_slashes s = length (takeWhile (\<lambda>ch. ch = CHR ''/'') (rev s))"

section \<open>The HTTP request helper (src/api/common-api-requests.ts)\<close>

subsection \<open>The method enumeration (http-methods.ts)\<close>

text \<open>The values of the enumeration \<open>HttpMethods\<close>, in the order of their declaration.\<close>

definition HttpMethods :: "string list" where
  "HttpMethods = [''GET'', ''POST'', ''PUT'', ''DELETE'', ''PATCH'']"

subsection \<open>Interfaces (models/common.interfaces.ts)\<close>

text \<open>
  \<open>CommonApiData\<close> and \<open>CommonApiOptions\<close>. An optional property is an \<open>option\<close>;
  \<open>body\<close> has type \<open>unknown\<close>, so an absent body is the value \<open>JUndefined\<close>.
  The method is a string at run time: the helper's \<open>switch\<close> has a \<open>default\<close>
  branch for the strings that are none of the five enumeration values.
  \<open>expectedResponseCode\<close> is \<open>number | null\<close> and optional: \<open>None\<close> is absent,
  \<open>Some None\<close> is null.
\<close>

record CommonApiData =
  baseUrl :: "string option"
  "method" :: string
  endpoint :: string
  body :: jvalue
  token :: "string option"

record CommonApiOptions =
  allowBadRequest :: "bool option"
  expectedResponseCode :: "int option option"
  returnType :: "string option"

subsection \<open>The HTTP library as seen by the helper\<close>

text \<open>
  The helper calls one of five entry points of the HTTP client library, passing the URL,
  for POST, PUT and PATCH the body, and a configuration holding the headers and the
  \<open>validateStatus\<close> predicate.
\<close>

record axios_config =
  headers :: "(string \<times> string) list"
  validateStatus :: "int \<Rightarrow> bool"

datatype axios_call =
    AxiosGet string axios_config
  | AxiosPost string jvalue axios_config
  | AxiosPut string jvalue axios_config
  | AxiosDelete string axios_config
  | AxiosPatch string jvalue axios_config

fun call_url :: "axios_call \<Rightarrow> string" where
  "call_url (AxiosGet u c) = u"
| "call_url (AxiosPost u b c) = u"
| "call_url (AxiosPut u b c) = u"
| "call_url (AxiosDelete u c) = u"
| "call_url (AxiosPatch u b c) = u"

fun call_config :: "axios_call \<Rightarrow> axios_config" where
  "call_config (AxiosGet u c) = c"
| "call_config (AxiosPost u b c) = c"
| "call_config (AxiosPut u b c) = c"
| "call_config (AxiosDelete u c) = c"
| "call_config (AxiosPatch u b c) = c"

fun call_verb :: "axios_call \<Rightarrow> string" where
  "call_verb (AxiosGet u c) = ''GET''"
| "call_verb (AxiosPost u b c) = ''POST''"
| "call_verb (AxiosPut u b c) = ''PUT''"
| "call_verb (AxiosDelete u c) = ''DELETE''"
| "call_verb (AxiosPatch u b c) = ''PATCH''"

fun call_body :: "axios_call \<Rightarrow> jvalue option" where
  "call_body (AxiosGet u c) = None"
| "call_body (AxiosPost u b c) = Some b"
| "call_body (AxiosPut u b c) = Some b"
| "call_body (AxiosDelete u c) = None"
| "call_body (AxiosPatch u b c) = Some b"

text \<open>
  The request a library call asks for, and the response the library settles on. The
  library's transport is a parameter of the model: for the request of a call it gives the
  response the library ends with, or a failure when it ends with none. Everything the
  library does between the two belongs to the parameter: sending, following redirects (on
  by default, and the helper does not turn it off), timeouts, reading the payload. So
  \<open>status\<close> is the status code of the response object the helper gets, after any
  redirect was followed, as \<open>validateStatus\<close> sees it.
\<close>

record wire_request =
  verb :: string
  url :: string
  req_headers :: "(string \<times> string) list"
  req_body :: "jvalue option"

record axios_response =
  status :: int
  data :: jvalue

type_synonym transport = "wire_request \<Rightarrow> string + axios_response"

definition wire_of :: "axios_call \<Rightarrow> wire_request" where
  "wire_of c = \<lparr> verb = call_verb c, url = call_url c,
                 req_headers = headers (call_config c), req_body = call_body c \<rparr>"

text \<open>
  The errors a call of the helper can end with: the helper's own
  \<open>Error(`Unsupported method: ${method}`)\<close>, carried with its message, and the two ways a
  library call rejects.
\<close>

datatype api_error =
    UnsupportedMethod string
  | TransportFailure string
  | BadStatus axios_response

text \<open>
  The library's contract for a call, as its documentation gives it: the promise resolves
  with the response the transport ended with when \<open>validateStatus\<close> holds of its status
  code, and rejects otherwise; it rejects as well when the transport ended with no response.
\<close>

definition axios_request :: "transport \<Rightarrow> axios_call \<Rightarrow> api_error + axios_response" where
  "axios_request net c =
     (case net (wire_of c) of
        Inl failure \<Rightarrow> Inl (TransportFailure failure)
      | Inr response \<Rightarrow>
          if validateStatus (call_config c) (status response) then Inr response
          else Inl (BadStatus response))"

subsection \<open>generateCommonHeaders\<close>

definition generateCommonHeaders :: "string \<Rightarrow> (string \<times> string) list" where
  "generateCommonHeaders authToken =
     (let hdrs = [(''accept'', ''*/*''), (''Content-Type'', ''application/json'')]
      in if authToken \<noteq> [] then hdrs @ [(''Authorization'', ''Bearer '' @ authToken)]
         else hdrs)"

subsection \<open>sendCommonApiRequest\<close>

text \<open>
  The three shapes of the value returned: \<open>responseData\<close>, \<open>{ response, responseData }\<close>
  and \<open>response\<close>.
\<close>

datatype api_result =
    RData jvalue
  | RBoth axios_response jvalue
  | RFull axios_response

text \<open>Line 28: the destructuring default of \<open>baseUrl\<close>, used when the property is undefined.\<close>

definition resolveBaseUrl :: "process_env \<Rightarrow> CommonApiData \<Rightarrow> string" where
  "resolveBaseUrl penv d =
     (case baseUrl d of
        Some b \<Rightarrow> b
      | None \<Rightarrow> str_or (penv_get penv ''API_BASE_URL'') ''http://localhost:3000/api'')"

text \<open>Line 28: \<open>body = null\<close>.\<close>

definition resolveBody :: "CommonApiData \<Rightarrow> jvalue" where
  "resolveBody d = (if body d = JUndefined then JNull else body d)"

text \<open>Lines 62 to 71: the \<open>switch\<close> on \<open>returnType\<close>.\<close>

definition selectReturn :: "string \<Rightarrow> axios_response \<Rightarrow> api_result" where
  "selectReturn rt response =
     (let responseData = data response
      in if rt = ''data'' then RData responseData
         else if rt = ''both'' then RBoth response responseData
         else if rt = ''full'' then RFull response
         else RData responseData)"

text \<open>
  The helper returns its outcome (an error raised, or a value returned) together with the
  list of library calls it dispatched, in order.
\<close>

definition sendCommonApiRequest ::
  "process_env \<Rightarrow> transport \<Rightarrow> CommonApiData \<Rightarrow> CommonApiOptions
     \<Rightarrow> (api_error + api_result) \<times> axios_call list" where
  "sendCommonApiRequest penv net d opts =
     (let base = resolveBaseUrl penv d;
          bdy = resolveBody d;
          allow = (case allowBadRequest opts of None \<Rightarrow> False | Some a \<Rightarrow> a);
          rt = (case returnType opts of None \<Rightarrow> ''data'' | Some r \<Rightarrow> r);
          requestUrl = base @ ''/'' @ endpoint d;
          hdrs = generateCommonHeaders (str_or (token d) ''token'');
          cfg = \<lparr> headers = hdrs, validateStatus = (\<lambda>st. allow \<or> st < 400) \<rparr>;
          dispatch = (\<lambda>c. (case axios_request net c of
                               Inl e \<Rightarrow> Inl e
                             | Inr response \<Rightarrow> Inr (selectReturn rt response), [c]))
      in if method d = ''GET'' then dispatch (AxiosGet requestUrl cfg)
         else if method d = ''POST'' then dispatch (AxiosPost requestUrl bdy cfg)
         else if method d = ''PUT'' then dispatch (AxiosPut requestUrl bdy cfg)
         else if method d = ''DELETE'' then dispatch (AxiosDelete requestUrl cfg)
         else if method d = ''PATCH'' then dispatch (AxiosPatch requestUrl bdy cfg)
         else (Inl (UnsupportedMethod (''Unsupported method: '' @ method d)), []))"

section \<open>Schema validation\<close>

text \<open>
  Both configuration modules build a schema with the validation library and call its
  \<open>parse\<close>. A schema is modelled by its parser: given the path of the value inside the
  input and the value, it yields the validated value or the list of issues found. Only the
  combinators the repository uses are modelled, with the behaviour the library documents
  for them:
  \<^item> \<open>z.string()\<close> accepts strings only; \<open>.min(n)\<close> and \<open>.url()\<close> add checks, each
    reporting an issue of its own. Whether a string is an absolute URL is decided by the
    platform's URL parser, which is a parameter here (\<open>Url isUrl\<close>);
  \<^item> \<open>.default(d)\<close> replaces an undefined input by \<open>d\<close> before the inner schema sees
    it;
  \<^item> \<open>z.object(shape)\<close> accepts objects only, validates the property of every key of the
    shape (undefined when the input lacks it), collects the issues of all of them, and on
    success returns an object with the keys of the shape and nothing else.
  \<open>parse\<close> throws when there is an issue: the \<open>Inl\<close> results.
\<close>

datatype issue_code = InvalidType | TooSmall | InvalidString

record zod_issue =
  code :: issue_code
  path :: "string list"

type_synonym zschema = "string list \<Rightarrow> jvalue \<Rightarrow> zod_issue list + jvalue"

datatype string_check = Min nat | Url "string \<Rightarrow> bool"

fun check_string :: "string list \<Rightarrow> string \<Rightarrow> string_check \<Rightarrow> zod_issue list" where
  "check_string p s (Min n) =
     (if length s < n then [\<lparr> code = TooSmall, path = p \<rparr>] else [])"
| "check_string p s (Url isUrl) =
     (if isUrl s then [] else [\<lparr> code = InvalidString, path = p \<rparr>])"

definition z_string :: "string_check list \<Rightarrow> zschema" where
  "z_string checks p v =
     (case v of
        JStr s \<Rightarrow>
          (let issues = concat (map (check_string p s) checks)
           in if issues = [] then Inr (JStr s) else Inl issues)
      | _ \<Rightarrow> Inl [\<lparr> code = InvalidType, path = p \<rparr>])"

definition z_default :: "zschema \<Rightarrow> jvalue \<Rightarrow> zschema" where
  "z_default inner dflt p v = inner p (if v = JUndefined then dflt else v)"

fun parse_shape ::
  "(string \<times> zschema) list \<Rightarrow> string list \<Rightarrow> (string \<times> jvalue) list
     \<Rightarrow> zod_issue list \<times> (string \<times> jvalue) list" where
  "parse_shape [] p kvs = ([], [])"
| "parse_shape ((k, s) # shape) p kvs =
     (let (issues, out) = parse_shape shape p kvs
      in case s (p @ [k]) (jget kvs k) of
           Inl found \<Rightarrow> (found @ issues, out)
         | Inr v \<Rightarrow> (issues, (k, v) # out))"

definition z_object :: "(string \<times> zschema) list \<Rightarrow> zschema" where
  "z_object shape p v =
     (case v of
        JObj kvs \<Rightarrow>
          (let (issues, out) = parse_shape shape p kvs
           in if issues = [] then Inr (JObj out) else Inl issues)
      | _ \<Rightarrow> Inl [\<lparr> code = InvalidType, path = p \<rparr>])"

section \<open>The endpoint registry (src/api/config/urls.ts)\<close>

definition urlsSchema :: zschema where
  "urlsSchema = z_object
     [(''auth'', z_object
         [(''login'', z_default (z_string []) (JStr ''auth/login'')),
          (''logout'', z_default (z_string []) (JStr ''auth/logout'')),
          (''refresh'', z_default (z_string []) (JStr ''auth/refresh''))]),
      (''users'', z_object
         [(''profile'', z_default (z_string []) (JStr ''users/profile'')),
          (''create'', z_default (z_string []) (JStr ''users'')),
          (''update'', z_default (z_string []) (JStr ''users'')),
          (''delete'', z_default (z_string []) (JStr ''users''))]),
      (''template'', z_object
         [(''getData'', z_default (z_string []) (JStr ''template/data'')),
          (''postData'', z_default (z_string []) (JStr ''template/data'')),
          (''updateData'', z_default (z_string []) (JStr ''template/data'')),
          (''deleteData'', z_default (z_string []) (JStr ''template/data''))])]"

definition urlsConfig :: jvalue where
  "urlsConfig = JObj
     [(''auth'', JObj
         [(''login'', JStr ''auth/login''),
          (''logout'', JStr ''auth/logout''),
          (''refresh'', JStr ''auth/refresh'')]),
      (''users'', JObj
         [(''profile'', JStr ''users/profile''),
          (''create'', JStr ''users''),
          (''update'', JStr ''users''),
          (''delete'', JStr ''users'')]),
      (''template'', JObj
         [(''getData'', JStr ''template/data''),
          (''postData'', JStr ''template/data''),
          (''updateData'', JStr ''template/data''),
          (''deleteData'', JStr ''template/data'')])]"

definition urls :: "zod_issue list + jvalue" where
  "urls = urlsSchema [] urlsConfig"

text \<open>
  Notions used to state what the registry does: a value is a string, a value is an object,
  and the value a leaf has after an undefined one was replaced by its default.
\<close>

definition isString :: "jvalue \<Rightarrow> bool" where
  "isString v = (case v of JStr s \<Rightarrow> True | _ \<Rightarrow> False)"

definition isObject :: "jvalue \<Rightarrow> bool" where
  "isObject v = (case v of JObj kvs \<Rightarrow> True | _ \<Rightarrow> False)"

definition orDefault :: "jvalue \<Rightarrow> string \<Rightarrow> jvalue" where
  "orDefault v d = (if v = JUndefined then JStr d else v)"

section \<open>The environment loader (src/utils/env_helper/env.ts)\<close>

text \<open>
  \<open>loadDotenv\<close> with \<open>override: true\<close>: the variables of the file are written over
  the process environment, so a variable of the file hides one of the same name that was
  already set. \<open>file\<close> is the parsed content of the file, empty when there is none.
\<close>

definition loadDotenv :: "process_env \<Rightarrow> process_env \<Rightarrow> process_env" where
  "loadDotenv file penv = file @ penv"

definition schema :: "(string \<Rightarrow> bool) \<Rightarrow> zschema" where
  "schema isUrl = z_object
     [(''BASE_URL'', z_string [Url isUrl]),
      (''API_BASE_URL'', z_string [Url isUrl]),
      (''MAIN_USER_LOGIN'', z_string [Min 1]),
      (''MAIN_USER_PASSWORD'', z_string [Min 1])]"

text \<open>The process environment as the object handed to \<open>parse\<close>: every value is a string.\<close>

definition env_object :: "process_env \<Rightarrow> jvalue" where
  "env_object penv = JObj (map (\<lambda>(k, v). (k, JStr v)) penv)"

definition env ::
  "(string \<Rightarrow> bool) \<Rightarrow> process_env \<Rightarrow> process_env \<Rightarrow> zod_issue list + jvalue" where
  "env isUrl file penv = schema isUrl [] (env_object (loadDotenv file penv))"

section \<open>Example inputs\<close>

text \<open>
  A transport that ends every call with the same status and payload, the request of the
  specification's scenario (\<open>GET users/profile/123\<close> with no options), the login request
  of the template client (a \<open>POST\<close> with a body), and the environment of the
  specification's configuration scenario. \<open>https_prefixed\<close> stands in for the URL parser
  in the examples.
\<close>

definition transport_answering :: "int \<Rightarrow> jvalue \<Rightarrow> transport" where
  "transport_answering st payload req = Inr \<lparr> status = st, data = payload \<rparr>"

definition profile_request :: CommonApiData where
  "profile_request =
     \<lparr> baseUrl = None, method = ''GET'', endpoint = ''users/profile/123'',
       body = JUndefined, token = None \<rparr>"

definition login_request :: CommonApiData where
  "login_request =
     \<lparr> baseUrl = Some ''https://x.test/api'', method = ''POST'', endpoint = ''auth/login'',
       body = JObj [(''email'', JStr ''u@x.test''), (''password'', JStr ''p'')], token = None \<rparr>"

definition no_options :: CommonApiOptions where
  "no_options = \<lparr> allowBadRequest = None, expectedResponseCode = None, returnType = None \<rparr>"

definition https_prefixed :: "string \<Rightarrow> bool" where
  "https_prefixed s = (take 8 s = ''https://'')"

definition scenario_env :: process_env where
  "scenario_env =
     [(''BASE_URL'', ''https://x.test''),
      (''API_BASE_URL'', ''https://x.test/api''),
      (''MAIN_USER_LOGIN'', ''u@x.test''),
      (''MAIN_USER_PASSWORD'', ''p'')]"

section \<open>Properties of the request helper\<close>

subsection \<open>Shape of a call of the helper\<close>

lemma send_outcome:
  assumes "c \<in> set (snd (sendCommonApiRequest penv net d opts))"
  shows "fst (sendCommonApiRequest penv net d opts) =
           (case axios_request net c of
              Inl e \<Rightarrow> Inl e
            | Inr response \<Rightarrow>
                Inr (selectReturn (case returnType opts of None \<Rightarrow> ''data'' | Some r \<Rightarrow> r)
                       response))"
  using assms
  by (auto simp: sendCommonApiRequest_def Let_def split: if_splits sum.splits)

lemma send_call_config:
  assumes "c \<in> set (snd (sendCommonApiRequest penv net d opts))"
  shows "call_config c =
           \<lparr> headers = generateCommonHeaders (str_or (token d) ''token''),
             validateStatus =
               (\<lambda>st. (case allowBadRequest opts of None \<Rightarrow> False | Some a \<Rightarrow> a) \<or> st < 400) \<rparr>"
  using assms
  by (auto simp: sendCommonApiRequest_def Let_def split: if_splits)

lemma send_call_url:
  assumes "c \<in> set (snd (sendCommonApiRequest penv net d opts))"
  shows "call_url c = resolveBaseUrl penv d @ ''/'' @ endpoint d"
  using assms
  by (auto simp: sendCommonApiRequest_def Let_def split: if_splits)

lemma send_recognized:
  assumes "method d \<in> set HttpMethods"
  shows "\<exists>c. snd (sendCommonApiRequest penv net d opts) = [c] \<and> call_verb c = method d"
  using assms
  by (auto simp: sendCommonApiRequest_def Let_def HttpMethods_def)

lemma send_unrecognized:
  assumes "method d \<notin> set HttpMethods"
  shows "sendCommonApiRequest penv net d opts =
           (Inl (UnsupportedMethod (''Unsupported method: '' @ method d)), [])"
  using assms
  by (simp add: sendCommonApiRequest_def Let_def HttpMethods_def)

lemma send_returned:
  assumes "fst (sendCommonApiRequest penv net d opts) = Inr v"
  shows "\<exists>c response. snd (sendCommonApiRequest penv net d opts) = [c]
           \<and> axios_request net c = Inr response
           \<and> v = selectReturn (case returnType opts of None \<Rightarrow> ''data'' | Some r \<Rightarrow> r) response"
  using assms
  by (auto simp: sendCommonApiRequest_def Let_def split: if_splits sum.splits)

lemma send_raised:
  assumes "fst (sendCommonApiRequest penv net d opts) = Inl e"
  shows "(method d \<notin> set HttpMethods
            \<and> e = UnsupportedMethod (''Unsupported method: '' @ method d))
         \<or> (\<exists>c. snd (sendCommonApiRequest penv net d opts) = [c] \<and> axios_request net c = Inl e)"
  using assms
  by (auto simp: sendCommonApiRequest_def Let_def HttpMethods_def split: if_splits sum.splits)

text \<open>
  Claim C1. Every call of the helper with one of the five methods dispatches one library
  call \<open>c\<close>, and whenever the library's transport ends that call with a response: if the
  status code of the response is below 400 the helper returns (the value selected by
  \<open>returnType\<close>), whatever \<open>allowBadRequest\<close> is; if the status code is 400 or more and
  \<open>allowBadRequest\<close> is absent or false, the helper raises the library's bad-status error;
  if the status code is 400 or more and \<open>allowBadRequest\<close> is true, the helper returns the
  value selected from that response instead of raising. (With any other method there is no
  response: no call is dispatched.)
\<close>

theorem status_gating:
  assumes "method d \<in> set HttpMethods"
  shows "\<exists>c. snd (sendCommonApiRequest penv net d opts) = [c] \<and> call_verb c = method d
      \<and> (\<forall>response. net (wire_of c) = Inr response \<longrightarrow>
            (status response < 400 \<longrightarrow>
               fst (sendCommonApiRequest penv net d opts) =
                 Inr (selectReturn (case returnType opts of None \<Rightarrow> ''data'' | Some r \<Rightarrow> r)
                        response))
          \<and> (400 \<le> status response
               \<and> (allowBadRequest opts = None \<or> allowBadRequest opts = Some False) \<longrightarrow>
               fst (sendCommonApiRequest penv net d opts) = Inl (BadStatus response))
          \<and> (400 \<le> status response \<and> allowBadRequest opts = Some True \<longrightarrow>
               fst (sendCommonApiRequest penv net d opts) =
                 Inr (selectReturn (case returnType opts of None \<Rightarrow> ''data'' | Some r \<Rightarrow> r)
                        response)))"
proof -
  let ?allow = "case allowBadRequest opts of None \<Rightarrow> False | Some a \<Rightarrow> a"
  from send_recognized[OF assms]
  obtain c where c: "snd (sendCommonApiRequest penv net d opts) = [c]" "call_verb c = method d"
    by blast
  then have mem: "c \<in> set (snd (sendCommonApiRequest penv net d opts))" by simp
  have "(status response < 400 \<longrightarrow>
           fst (sendCommonApiRequest penv net d opts) =
             Inr (selectReturn (case returnType opts of None \<Rightarrow> ''data'' | Some r \<Rightarrow> r)
                    response))
      \<and> (400 \<le> status response
           \<and> (allowBadRequest opts = None \<or> allowBadRequest opts = Some False) \<longrightarrow>
           fst (sendCommonApiRequest penv net d opts) = Inl (BadStatus response))
      \<and> (400 \<le> status response \<and> allowBadRequest opts = Some True \<longrightarrow>
           fst (sendCommonApiRequest penv net d opts) =
             Inr (selectReturn (case returnType opts of None \<Rightarrow> ''data'' | Some r \<Rightarrow> r)
                    response))"
    if r: "net (wire_of c) = Inr response" for response
  proof -
    have settle: "axios_request net c =
        (if ?allow \<or> status response < 400 then Inr response else Inl (BadStatus response))"
      using send_call_config[OF mem] r by (simp add: axios_request_def)
    show ?thesis
      unfolding send_outcome[OF mem] settle
      by (auto split: option.splits)
  qed
  with c show ?thesis by blast
qed

text \<open>
  Witness for C1. On the specification's scenario (a \<open>GET\<close>): a 200 answer is returned, a
  401 answer raises with no options, and the same 401 answer is returned with
  \<open>allowBadRequest: true\<close>. On the login request (a \<open>POST\<close>): a 304 answer is returned,
  a 401 answer raises with \<open>allowBadRequest: false\<close> and is returned with
  \<open>allowBadRequest: true\<close>.
\<close>

theorem status_gating_witness:
  "fst (sendCommonApiRequest [] (transport_answering 200 (JStr ''ok'')) profile_request no_options)
     = Inr (RData (JStr ''ok''))
   \<and> fst (sendCommonApiRequest [] (transport_answering 401 (JStr ''denied'')) profile_request
          no_options)
     = Inl (BadStatus \<lparr> status = 401, data = JStr ''denied'' \<rparr>)
   \<and> fst (sendCommonApiRequest [] (transport_answering 401 (JStr ''denied'')) profile_request
          (no_options\<lparr>allowBadRequest := Some True\<rparr>))
     = Inr (RData (JStr ''denied''))
   \<and> fst (sendCommonApiRequest [] (transport_answering 304 JNull) login_request no_options)
     = Inr (RData JNull)
   \<and> fst (sendCommonApiRequest [] (transport_answering 401 (JStr ''denied'')) login_request
          (no_options\<lparr>allowBadRequest := Some False\<rparr>))
     = Inl (BadStatus \<lparr> status = 401, data = JStr ''denied'' \<rparr>)
   \<and> fst (sendCommonApiRequest [] (transport_answering 401 (JStr ''denied'')) login_request
          (no_options\<lparr>allowBadRequest := Some True\<rparr>))
     = Inr (RData (JStr ''denied''))"
proof -
  have g: "method profile_request \<in> set HttpMethods" "method login_request \<in> set HttpMethods"
    by (simp_all add: profile_request_def login_request_def HttpMethods_def)
  have r: "\<And>st p c. transport_answering st p (wire_of c) = Inr \<lparr> status = st, data = p \<rparr>"
    by (simp add: transport_answering_def)
  show ?thesis
    using status_gating[OF g(1), of "[]" "transport_answering 200 (JStr ''ok'')" no_options]
      status_gating[OF g(1), of "[]" "transport_answering 401 (JStr ''denied'')" no_options]
      status_gating[OF g(1), of "[]" "transport_answering 401 (JStr ''denied'')"
        "no_options\<lparr>allowBadRequest := Some True\<rparr>"]
      status_gating[OF g(2), of "[]" "transport_answering 304 JNull" no_options]
      status_gating[OF g(2), of "[]" "transport_answering 401 (JStr ''denied'')"
        "no_options\<lparr>allowBadRequest := Some False\<rparr>"]
      status_gating[OF g(2), of "[]" "transport_answering 401 (JStr ''denied'')"
        "no_options\<lparr>allowBadRequest := Some True\<rparr>"]
    by (auto simp: r no_options_def selectReturn_def)
qed

text \<open>
  Claim C2. The value a call of the helper returns is selected by \<open>returnType\<close>. With each
  of the five methods one library call is dispatched, and when it resolves with
  \<open>response\<close> the helper returns the payload alone for \<open>'data'\<close> and when the option is
  absent, the response together with the payload for \<open>'both'\<close>, and the response alone for
  \<open>'full'\<close>. Conversely every value the helper returns, whatever the method, is that shape
  of the response its one library call resolved with.
\<close>

theorem return_shape_selection:
  "(method d \<in> set HttpMethods \<longrightarrow>
      (\<exists>c. snd (sendCommonApiRequest penv net d opts) = [c] \<and> call_verb c = method d
         \<and> (\<forall>response. axios_request net c = Inr response \<longrightarrow>
               (returnType opts = None \<or> returnType opts = Some ''data'' \<longrightarrow>
                  fst (sendCommonApiRequest penv net d opts) = Inr (RData (data response)))
             \<and> (returnType opts = Some ''both'' \<longrightarrow>
                  fst (sendCommonApiRequest penv net d opts)
                    = Inr (RBoth response (data response)))
             \<and> (returnType opts = Some ''full'' \<longrightarrow>
                  fst (sendCommonApiRequest penv net d opts) = Inr (RFull response)))))
   \<and> (\<forall>v. fst (sendCommonApiRequest penv net d opts) = Inr v \<longrightarrow>
        (\<exists>c response. snd (sendCommonApiRequest penv net d opts) = [c]
           \<and> axios_request net c = Inr response
           \<and> (returnType opts = None \<or> returnType opts = Some ''data'' \<longrightarrow>
                v = RData (data response))
           \<and> (returnType opts = Some ''both'' \<longrightarrow> v = RBoth response (data response))
           \<and> (returnType opts = Some ''full'' \<longrightarrow> v = RFull response)))"
proof (intro conjI impI allI)
  assume m: "method d \<in> set HttpMethods"
  from send_recognized[OF m]
  obtain c where c: "snd (sendCommonApiRequest penv net d opts) = [c]" "call_verb c = method d"
    by blast
  then have mem: "c \<in> set (snd (sendCommonApiRequest penv net d opts))" by simp
  have "\<forall>response. axios_request net c = Inr response \<longrightarrow>
               (returnType opts = None \<or> returnType opts = Some ''data'' \<longrightarrow>
                  fst (sendCommonApiRequest penv net d opts) = Inr (RData (data response)))
             \<and> (returnType opts = Some ''both'' \<longrightarrow>
                  fst (sendCommonApiRequest penv net d opts)
                    = Inr (RBoth response (data response)))
             \<and> (returnType opts = Some ''full'' \<longrightarrow>
                  fst (sendCommonApiRequest penv net d opts) = Inr (RFull response))"
    unfolding send_outcome[OF mem] by (auto simp: selectReturn_def)
  with c show "\<exists>c. snd (sendCommonApiRequest penv net d opts) = [c] \<and> call_verb c = method d
         \<and> (\<forall>response. axios_request net c = Inr response \<longrightarrow>
               (returnType opts = None \<or> returnType opts = Some ''data'' \<longrightarrow>
                  fst (sendCommonApiRequest penv net d opts) = Inr (RData (data response)))
             \<and> (returnType opts = Some ''both'' \<longrightarrow>
                  fst (sendCommonApiRequest penv net d opts)
                    = Inr (RBoth response (data response)))
             \<and> (returnType opts = Some ''full'' \<longrightarrow>
                  fst (sendCommonApiRequest penv net d opts) = Inr (RFull response)))"
    by blast
next
  fix v
  assume v: "fst (sendCommonApiRequest penv net d opts) = Inr v"
  from send_returned[OF v]
  obtain c response where cr: "snd (sendCommonApiRequest penv net d opts) = [c]"
    "axios_request net c = Inr response"
    "v = selectReturn (case returnType opts of None \<Rightarrow> ''data'' | Some r \<Rightarrow> r) response"
    by blast
  have "(returnType opts = None \<or> returnType opts = Some ''data'' \<longrightarrow>
                v = RData (data response))
           \<and> (returnType opts = Some ''both'' \<longrightarrow> v = RBoth response (data response))
           \<and> (returnType opts = Some ''full'' \<longrightarrow> v = RFull response)"
    unfolding cr(3) by (auto simp: selectReturn_def)
  with cr(1,2) show "\<exists>c response. snd (sendCommonApiRequest penv net d opts) = [c]
           \<and> axios_request net c = Inr response
           \<and> (returnType opts = None \<or> returnType opts = Some ''data'' \<longrightarrow>
                v = RData (data response))
           \<and> (returnType opts = Some ''both'' \<longrightarrow> v = RBoth response (data response))
           \<and> (returnType opts = Some ''full'' \<longrightarrow> v = RFull response)"
    by blast
qed

text \<open>
  Witness for C2: the four settings of \<open>returnType\<close> on a \<open>GET\<close> answered with status 200
  and payload 7, and \<open>'both'\<close> and \<open>'full'\<close> on the login \<open>POST\<close>.
\<close>

theorem return_shape_selection_witness:
  "fst (sendCommonApiRequest [] (transport_answering 200 (JNum 7)) profile_request no_options)
     = Inr (RData (JNum 7))
   \<and> fst (sendCommonApiRequest [] (transport_answering 200 (JNum 7)) profile_request
          (no_options\<lparr>returnType := Some ''data''\<rparr>))
     = Inr (RData (JNum 7))
   \<and> fst (sendCommonApiRequest [] (transport_answering 200 (JNum 7)) profile_request
          (no_options\<lparr>returnType := Some ''both''\<rparr>))
     = Inr (RBoth \<lparr> status = 200, data = JNum 7 \<rparr> (JNum 7))
   \<and> fst (sendCommonApiRequest [] (transport_answering 200 (JNum 7)) profile_request
          (no_options\<lparr>returnType := Some ''full''\<rparr>))
     = Inr (RFull \<lparr> status = 200, data = JNum 7 \<rparr>)
   \<and> fst (sendCommonApiRequest [] (transport_answering 201 (JNum 7)) login_request
          (no_options\<lparr>returnType := Some ''both''\<rparr>))
     = Inr (RBoth \<lparr> status = 201, data = JNum 7 \<rparr> (JNum 7))
   \<and> fst (sendCommonApiRequest [] (transport_answering 201 (JNum 7)) login_request
          (no_options\<lparr>returnType := Some ''full''\<rparr>))
     = Inr (RFull \<lparr> status = 201, data = JNum 7 \<rparr>)"
proof -
  have g: "method profile_request \<in> set HttpMethods" "method login_request \<in> set HttpMethods"
    by (simp_all add: profile_request_def login_request_def HttpMethods_def)
  have r: "\<And>st p c opts. st < 400 \<Longrightarrow>
      axios_request (transport_answering st p) c
        = (if validateStatus (call_config c) st then Inr \<lparr> status = st, data = p \<rparr>
           else Inl (BadStatus \<lparr> status = st, data = p \<rparr>))"
    by (simp add: axios_request_def transport_answering_def)
  show ?thesis
    using return_shape_selection[of profile_request "[]" "transport_answering 200 (JNum 7)"
        no_options]
      return_shape_selection[of profile_request "[]" "transport_answering 200 (JNum 7)"
        "no_options\<lparr>returnType := Some ''data''\<rparr>"]
      return_shape_selection[of profile_request "[]" "transport_answering 200 (JNum 7)"
        "no_options\<lparr>returnType := Some ''both''\<rparr>"]
      return_shape_selection[of profile_request "[]" "transport_answering 200 (JNum 7)"
        "no_options\<lparr>returnType := Some ''full''\<rparr>"]
      return_shape_selection[of login_request "[]" "transport_answering 201 (JNum 7)"
        "no_options\<lparr>returnType := Some ''both''\<rparr>"]
      return_shape_selection[of login_request "[]" "transport_answering 201 (JNum 7)"
        "no_options\<lparr>returnType := Some ''full''\<rparr>"]
    by (simp add: sendCommonApiRequest_def Let_def profile_request_def login_request_def
        no_options_def axios_request_def transport_answering_def selectReturn_def)
qed

text \<open>
  Claim C10. With a \<open>returnType\<close> that is none of \<open>'data'\<close>, \<open>'both'\<close>, \<open>'full'\<close>, a call
  of the helper is the call with \<open>returnType: 'data'\<close>: the same library call is dispatched
  and the outcome is the same, for every method, transport and descriptor. The option makes
  no call fail: with each of the five methods the library call is dispatched, and when it
  resolves the helper returns the payload alone; every value returned is the payload alone;
  and an error raised is either the refusal of an unsupported method or the rejection of the
  library call.
\<close>

theorem unknown_return_type_is_data:
  assumes "rt \<notin> {''data'', ''both'', ''full''}"
  shows "sendCommonApiRequest penv net d (opts\<lparr>returnType := Some rt\<rparr>)
           = sendCommonApiRequest penv net d (opts\<lparr>returnType := Some ''data''\<rparr>)
       \<and> (method d \<in> set HttpMethods \<longrightarrow>
            (\<exists>c. snd (sendCommonApiRequest penv net d (opts\<lparr>returnType := Some rt\<rparr>)) = [c]
               \<and> call_verb c = method d
               \<and> (\<forall>response. axios_request net c = Inr response \<longrightarrow>
                     fst (sendCommonApiRequest penv net d (opts\<lparr>returnType := Some rt\<rparr>))
                       = Inr (RData (data response)))))
       \<and> (\<forall>v. fst (sendCommonApiRequest penv net d (opts\<lparr>returnType := Some rt\<rparr>)) = Inr v \<longrightarrow>
            (\<exists>c response.
               snd (sendCommonApiRequest penv net d (opts\<lparr>returnType := Some rt\<rparr>)) = [c]
               \<and> axios_request net c = Inr response \<and> v = RData (data response)))
       \<and> (\<forall>e. fst (sendCommonApiRequest penv net d (opts\<lparr>returnType := Some rt\<rparr>)) = Inl e \<longrightarrow>
            (method d \<notin> set HttpMethods
               \<and> e = UnsupportedMethod (''Unsupported method: '' @ method d))
            \<or> (\<exists>c. snd (sendCommonApiRequest penv net d (opts\<lparr>returnType := Some rt\<rparr>)) = [c]
                 \<and> axios_request net c = Inl e))"
proof (intro conjI impI allI)
  have "\<And>response. selectReturn rt response = selectReturn ''data'' response"
    using assms by (simp add: selectReturn_def)
  then show "sendCommonApiRequest penv net d (opts\<lparr>returnType := Some rt\<rparr>)
          = sendCommonApiRequest penv net d (opts\<lparr>returnType := Some ''data''\<rparr>)"
    by (simp add: sendCommonApiRequest_def Let_def cong: sum.case_cong)
next
  assume m: "method d \<in> set HttpMethods"
  from send_recognized[OF m]
  obtain c where c: "snd (sendCommonApiRequest penv net d (opts\<lparr>returnType := Some rt\<rparr>)) = [c]"
    "call_verb c = method d"
    by blast
  then have mem: "c \<in> set (snd (sendCommonApiRequest penv net d (opts\<lparr>returnType := Some rt\<rparr>)))"
    by simp
  have "\<forall>response. axios_request net c = Inr response \<longrightarrow>
          fst (sendCommonApiRequest penv net d (opts\<lparr>returnType := Some rt\<rparr>))
            = Inr (RData (data response))"
    unfolding send_outcome[OF mem] using assms by (auto simp: selectReturn_def)
  with c show "\<exists>c. snd (sendCommonApiRequest penv net d (opts\<lparr>returnType := Some rt\<rparr>)) = [c]
               \<and> call_verb c = method d
               \<and> (\<forall>response. axios_request net c = Inr response \<longrightarrow>
                     fst (sendCommonApiRequest penv net d (opts\<lparr>returnType := Some rt\<rparr>))
                       = Inr (RData (data response)))"
    by blast
next
  fix v
  assume v: "fst (sendCommonApiRequest penv net d (opts\<lparr>returnType := Some rt\<rparr>)) = Inr v"
  from send_returned[OF v]
  obtain c response where
    cr: "snd (sendCommonApiRequest penv net d (opts\<lparr>returnType := Some rt\<rparr>)) = [c]"
    "axios_request net c = Inr response"
    "v = selectReturn (case returnType (opts\<lparr>returnType := Some rt\<rparr>) of
                         None \<Rightarrow> ''data'' | Some r \<Rightarrow> r) response"
    by blast
  from cr(3) assms have "v = RData (data response)" by (simp add: selectReturn_def)
  with cr(1,2) show "\<exists>c response.
               snd (sendCommonApiRequest penv net d (opts\<lparr>returnType := Some rt\<rparr>)) = [c]
               \<and> axios_request net c = Inr response \<and> v = RData (data response)"
    by blast
next
  fix e
  assume e: "fst (sendCommonApiRequest penv net d (opts\<lparr>returnType := Some rt\<rparr>)) = Inl e"
  from send_raised[OF e]
  show "(method d \<notin> set HttpMethods
               \<and> e = UnsupportedMethod (''Unsupported method: '' @ method d))
            \<or> (\<exists>c. snd (sendCommonApiRequest penv net d (opts\<lparr>returnType := Some rt\<rparr>)) = [c]
                 \<and> axios_request net c = Inl e)" .
qed

text \<open>
  Witness for C10, with \<open>returnType: 'raw'\<close>, on a \<open>GET\<close> and on the login \<open>POST\<close>.
\<close>

theorem unknown_return_type_is_data_witness:
  "fst (sendCommonApiRequest [] (transport_answering 200 (JNum 7)) profile_request
          (no_options\<lparr>returnType := Some ''raw''\<rparr>))
     = Inr (RData (JNum 7))
   \<and> fst (sendCommonApiRequest [] (transport_answering 201 (JNum 7)) login_request
          (no_options\<lparr>returnType := Some ''raw''\<rparr>))
     = Inr (RData (JNum 7))
   \<and> sendCommonApiRequest [] (transport_answering 201 (JNum 7)) login_request
          (no_options\<lparr>returnType := Some ''raw''\<rparr>)
     = sendCommonApiRequest [] (transport_answering 201 (JNum 7)) login_request
          (no_options\<lparr>returnType := Some ''data''\<rparr>)"
proof -
  have rt: "''raw'' \<notin> {''data'', ''both'', ''full''}" by simp
  show ?thesis
    using unknown_return_type_is_data[OF rt, of "[]" "transport_answering 200 (JNum 7)"
        profile_request no_options]
      unknown_return_type_is_data[OF rt, of "[]" "transport_answering 201 (JNum 7)"
        login_request no_options]
    by (simp add: sendCommonApiRequest_def Let_def profile_request_def login_request_def
        no_options_def axios_request_def transport_answering_def selectReturn_def)
qed

text \<open>
  Claim C6. A call of the helper with one of the five methods of the enumeration dispatches
  exactly one library call, of that method, whether that call resolves or rejects. A call
  with any other method ends at once with the error \<open>Unsupported method: <method>\<close> and
  dispatches no library call.
\<close>

theorem one_call_per_invocation:
  "(method d \<in> set HttpMethods \<longrightarrow>
      (\<exists>c. snd (sendCommonApiRequest penv net d opts) = [c] \<and> call_verb c = method d))
   \<and> (method d \<notin> set HttpMethods \<longrightarrow>
      sendCommonApiRequest penv net d opts =
        (Inl (UnsupportedMethod (''Unsupported method: '' @ method d)), []))"
  using send_recognized[of d penv net opts] send_unrecognized[of d penv net opts]
  by blast

text \<open>
  Witness for C6: a \<open>GET\<close> answered with status 500 is one call and is not repeated; \<open>HEAD\<close>
  is refused by name with no call.
\<close>

theorem one_call_per_invocation_witness:
  "(\<exists>c. snd (sendCommonApiRequest [] (transport_answering 500 JNull) profile_request no_options) = [c]
        \<and> call_verb c = ''GET'')
   \<and> sendCommonApiRequest [] (transport_answering 200 JNull) (profile_request\<lparr>method := ''HEAD''\<rparr>)
        no_options
       = (Inl (UnsupportedMethod ''Unsupported method: HEAD''), [])"
  using one_call_per_invocation[of profile_request "[]" "transport_answering 500 JNull" no_options]
    one_call_per_invocation[of "profile_request\<lparr>method := ''HEAD''\<rparr>" "[]"
      "transport_answering 200 JNull" no_options]
  by (simp add: HttpMethods_def profile_request_def)

text \<open>
  Claim C7 says that, for every base URL, exactly one slash separates it from the endpoint
  in the request URL. Counterexample: with the base URL \<open>http://localhost:3000/api/\<close>,
  which ends with a slash, the request goes to
  \<open>http://localhost:3000/api//users/profile/123\<close>: two slashes stand before the endpoint.
\<close>

theorem base_url_trailing_slash_counterexample:
  "map call_url
     (snd (sendCommonApiRequest [] (transport_answering 200 JNull)
        (profile_request\<lparr>baseUrl := Some ''http://localhost:3000/api/''\<rparr>) no_options))
     = [''http://localhost:3000/api//users/profile/123'']
   \<and> trailing_slashes ''http://localhost:3000/api//'' = 2"
  by (simp add: sendCommonApiRequest_def Let_def resolveBaseUrl_def profile_request_def
      trailing_slashes_def)

text \<open>
  Claim C7, amended. With each of the five methods, the URL of the one library call
  dispatched is the base URL, one slash and the endpoint, put together as they are: nothing
  is normalised. The number of slashes that stand before the endpoint in the URL is
  therefore one more than the number of slashes the base URL ends with: exactly one when
  the base URL does not end with a slash.
\<close>

theorem request_url_join:
  assumes "method d \<in> set HttpMethods"
  shows "\<exists>c. snd (sendCommonApiRequest penv net d opts) = [c]
      \<and> call_url c = resolveBaseUrl penv d @ ''/'' @ endpoint d
      \<and> trailing_slashes (take (length (call_url c) - length (endpoint d)) (call_url c))
          = Suc (trailing_slashes (resolveBaseUrl penv d))
      \<and> (trailing_slashes (resolveBaseUrl penv d) = 0 \<longrightarrow>
           trailing_slashes (take (length (call_url c) - length (endpoint d)) (call_url c)) = 1)"
proof -
  from send_recognized[OF assms]
  obtain c where c: "snd (sendCommonApiRequest penv net d opts) = [c]" by blast
  then have mem: "c \<in> set (snd (sendCommonApiRequest penv net d opts))" by simp
  have u: "call_url c = resolveBaseUrl penv d @ ''/'' @ endpoint d"
    by (rule send_call_url[OF mem])
  have "take (length (call_url c) - length (endpoint d)) (call_url c)
      = resolveBaseUrl penv d @ ''/''"
    unfolding u by simp
  then have "trailing_slashes (take (length (call_url c) - length (endpoint d)) (call_url c))
      = Suc (trailing_slashes (resolveBaseUrl penv d))"
    by (simp add: trailing_slashes_def)
  with c u show ?thesis by auto
qed

text \<open>
  Witness for C7: a base URL without a trailing slash, on a \<open>GET\<close> and on the login
  \<open>POST\<close>.
\<close>

theorem request_url_join_witness:
  "map call_url (snd (sendCommonApiRequest [] (transport_answering 200 JNull)
       (profile_request\<lparr>baseUrl := Some ''https://x.test/api''\<rparr>) no_options))
     = [''https://x.test/api/users/profile/123'']
   \<and> map call_url (snd (sendCommonApiRequest [] (transport_answering 200 JNull)
       login_request no_options))
     = [''https://x.test/api/auth/login'']
   \<and> trailing_slashes ''https://x.test/api/'' = 1"
proof -
  have g: "method (profile_request\<lparr>baseUrl := Some ''https://x.test/api''\<rparr>) \<in> set HttpMethods"
    "method login_request \<in> set HttpMethods"
    by (simp_all add: profile_request_def login_request_def HttpMethods_def)
  show ?thesis
    using request_url_join[OF g(1), of "[]" "transport_answering 200 JNull" no_options]
      request_url_join[OF g(2), of "[]" "transport_answering 200 JNull" no_options]
    by (simp add: sendCommonApiRequest_def Let_def resolveBaseUrl_def profile_request_def
        login_request_def trailing_slashes_def)
qed

text \<open>
  Claim C8 says that without \<open>descriptor.baseUrl\<close> the base URL is the value of
  \<open>API_BASE_URL\<close>. Counterexample: with no \<open>baseUrl\<close> and \<open>API_BASE_URL\<close> not set, the
  request goes to \<open>http://localhost:3000/api\<close>, a literal of the helper.
\<close>

theorem base_url_unset_env_counterexample:
  "baseUrl profile_request = None
   \<and> penv_get [] ''API_BASE_URL'' = None
   \<and> map call_url (snd (sendCommonApiRequest [] (transport_answering 200 JNull) profile_request
        no_options))
     = [''http://localhost:3000/api/users/profile/123'']"
  by (simp add: sendCommonApiRequest_def Let_def resolveBaseUrl_def str_or_def penv_get_def
      profile_request_def)

text \<open>
  Claim C8, amended. In every library call dispatched: a \<open>baseUrl\<close> supplied in the
  descriptor is the base URL; without one, the base URL is the value of \<open>API_BASE_URL\<close>
  when that variable is set and not empty, and \<open>http://localhost:3000/api\<close> when it is
  unset or empty.
\<close>

theorem base_url_resolution:
  assumes "c \<in> set (snd (sendCommonApiRequest penv net d opts))"
  shows "(\<forall>b. baseUrl d = Some b \<longrightarrow> call_url c = b @ ''/'' @ endpoint d)
       \<and> (\<forall>u. baseUrl d = None \<and> penv_get penv ''API_BASE_URL'' = Some u \<and> u \<noteq> [] \<longrightarrow>
            call_url c = u @ ''/'' @ endpoint d)
       \<and> (baseUrl d = None
            \<and> (penv_get penv ''API_BASE_URL'' = None \<or> penv_get penv ''API_BASE_URL'' = Some []) \<longrightarrow>
            call_url c = ''http://localhost:3000/api'' @ ''/'' @ endpoint d)"
  unfolding send_call_url[OF assms]
  by (auto simp: resolveBaseUrl_def str_or_def)

text \<open>
  Witness for C8: the environment value is used when no \<open>baseUrl\<close> is given, an explicit
  \<open>baseUrl\<close> wins over it, and an empty environment value gives the literal.
\<close>

theorem base_url_resolution_witness:
  "map call_url (snd (sendCommonApiRequest [(''API_BASE_URL'', ''https://x.test/api'')]
       (transport_answering 200 JNull) profile_request no_options))
     = [''https://x.test/api/users/profile/123'']
   \<and> map call_url (snd (sendCommonApiRequest [(''API_BASE_URL'', ''https://x.test/api'')]
       (transport_answering 200 JNull) (profile_request\<lparr>baseUrl := Some ''http://other''\<rparr>) no_options))
     = [''http://other/users/profile/123'']
   \<and> map call_url (snd (sendCommonApiRequest [(''API_BASE_URL'', [])]
       (transport_answering 200 JNull) profile_request no_options))
     = [''http://localhost:3000/api/users/profile/123'']"
proof -
  have mem: "\<And>penv b. hd (snd (sendCommonApiRequest penv (transport_answering 200 JNull)
        (profile_request\<lparr>baseUrl := b\<rparr>) no_options))
      \<in> set (snd (sendCommonApiRequest penv (transport_answering 200 JNull)
        (profile_request\<lparr>baseUrl := b\<rparr>) no_options))"
    by (simp add: sendCommonApiRequest_def Let_def profile_request_def)
  show ?thesis
    using base_url_resolution[OF mem[of "[(''API_BASE_URL'', ''https://x.test/api'')]" None]]
      base_url_resolution[OF mem[of "[(''API_BASE_URL'', ''https://x.test/api'')]" "Some ''http://other''"]]
      base_url_resolution[OF mem[of "[(''API_BASE_URL'', [])]" None]]
    by (simp add: sendCommonApiRequest_def Let_def resolveBaseUrl_def str_or_def penv_get_def
        profile_request_def)
qed

text \<open>
  Claim C5 says that a token supplied by the caller is the one sent. Counterexample: the
  caller supplies the empty string as token, and the request carries
  \<open>Authorization: Bearer token\<close>, the placeholder, not \<open>Bearer\<close> followed by the empty token.
\<close>

theorem empty_token_counterexample:
  "token (profile_request\<lparr>token := Some []\<rparr>) = Some []
   \<and> map (headers \<circ> call_config)
       (snd (sendCommonApiRequest [] (transport_answering 200 JNull)
          (profile_request\<lparr>token := Some []\<rparr>) no_options))
     = [[(''accept'', ''*/*''), (''Content-Type'', ''application/json''),
         (''Authorization'', ''Bearer token'')]]"
  by (simp add: sendCommonApiRequest_def Let_def profile_request_def generateCommonHeaders_def
      str_or_def)

text \<open>
  Claim C5, amended. The headers of every library call dispatched are exactly
  \<open>accept: */*\<close>, \<open>Content-Type: application/json\<close> and \<open>Authorization: Bearer <token>\<close>,
  where \<open><token>\<close> is the caller's token when one is supplied and is not empty, and the
  placeholder \<open>token\<close> when none is supplied or the one supplied is empty. So every
  outgoing request carries an \<open>Authorization\<close> header. (The source spells the first header
  name in lower case; header names do not distinguish case.)
\<close>

theorem request_headers:
  assumes "c \<in> set (snd (sendCommonApiRequest penv net d opts))"
  shows "headers (call_config c) =
           [(''accept'', ''*/*''), (''Content-Type'', ''application/json''),
            (''Authorization'',
             ''Bearer '' @ (case token d of
                              None \<Rightarrow> ''token''
                            | Some t \<Rightarrow> if t = [] then ''token'' else t))]"
  unfolding send_call_config[OF assms]
  by (simp add: generateCommonHeaders_def str_or_def split: option.splits)

text \<open>Witness for C5: a call with the token \<open>abc\<close>, and one with no token.\<close>

theorem request_headers_witness:
  "map (headers \<circ> call_config)
     (snd (sendCommonApiRequest [] (transport_answering 200 JNull)
        (profile_request\<lparr>token := Some ''abc''\<rparr>) no_options))
     = [[(''accept'', ''*/*''), (''Content-Type'', ''application/json''),
         (''Authorization'', ''Bearer abc'')]]
   \<and> map (headers \<circ> call_config)
     (snd (sendCommonApiRequest [] (transport_answering 200 JNull) profile_request no_options))
     = [[(''accept'', ''*/*''), (''Content-Type'', ''application/json''),
         (''Authorization'', ''Bearer token'')]]"
proof -
  have mem: "\<And>t. hd (snd (sendCommonApiRequest [] (transport_answering 200 JNull)
        (profile_request\<lparr>token := t\<rparr>) no_options))
      \<in> set (snd (sendCommonApiRequest [] (transport_answering 200 JNull)
        (profile_request\<lparr>token := t\<rparr>) no_options))"
    by (simp add: sendCommonApiRequest_def Let_def profile_request_def)
  show ?thesis
    using request_headers[OF mem[of "Some ''abc''"]] request_headers[OF mem[of None]]
    by (simp add: sendCommonApiRequest_def Let_def profile_request_def
        generateCommonHeaders_def str_or_def)
qed

text \<open>
  Claim C9. Two calls of the helper whose options differ in \<open>expectedResponseCode\<close> only
  have the same outcome: the same library call is dispatched, and the same error is raised
  or the same value returned.
\<close>

theorem expected_code_ignored:
  assumes "allowBadRequest opts1 = allowBadRequest opts2"
    and "returnType opts1 = returnType opts2"
  shows "sendCommonApiRequest penv net d opts1 = sendCommonApiRequest penv net d opts2"
  using assms by (simp add: sendCommonApiRequest_def)

text \<open>
  Witness for C9: against a 404 answer, expecting 200 and expecting 404 make no difference.
\<close>

theorem expected_code_ignored_witness:
  "sendCommonApiRequest [] (transport_answering 404 JNull) profile_request
     (no_options\<lparr>expectedResponseCode := Some (Some 200)\<rparr>)
   = sendCommonApiRequest [] (transport_answering 404 JNull) profile_request
     (no_options\<lparr>expectedResponseCode := Some (Some 404)\<rparr>)"
  using expected_code_ignored[of "no_options\<lparr>expectedResponseCode := Some (Some 200)\<rparr>"
      "no_options\<lparr>expectedResponseCode := Some (Some 404)\<rparr>"
      "[]" "transport_answering 404 JNull" profile_request]
  by simp

section \<open>Properties of the schema combinators\<close>

lemma leaf_default:
  "v = JUndefined \<or> isString v \<Longrightarrow> z_default (z_string []) (JStr d) p v = Inr (orDefault v d)"
  by (auto simp: z_default_def z_string_def orDefault_def isString_def split: jvalue.splits)

lemma parse_shape_issues:
  "(k, s) \<in> set shape \<Longrightarrow> s (p @ [k]) (jget kvs k) = Inl found
     \<Longrightarrow> set found \<subseteq> set (fst (parse_shape shape p kvs))"
proof (induction shape)
  case Nil
  then show ?case by simp
next
  case (Cons a shape)
  obtain k' s' where a: "a = (k', s')" by (cases a)
  show ?case
  proof (cases "(k, s) = a")
    case True
    with Cons.prems a show ?thesis by (auto split: prod.splits sum.splits)
  next
    case False
    with Cons a have "set found \<subseteq> set (fst (parse_shape shape p kvs))" by auto
    with a show ?thesis by (auto split: prod.splits sum.splits)
  qed
qed

lemma z_object_rejects:
  assumes "(k, s) \<in> set shape" and "s (p @ [k]) (jget kvs k) = Inl found" and "found \<noteq> []"
  shows "\<exists>issues. z_object shape p (JObj kvs) = Inl issues \<and> set found \<subseteq> set issues"
proof -
  from parse_shape_issues[OF assms(1,2)]
  have sub: "set found \<subseteq> set (fst (parse_shape shape p kvs))" .
  with assms(3) have "fst (parse_shape shape p kvs) \<noteq> []" by auto
  with sub show ?thesis
    by (auto simp: z_object_def split: prod.splits)
qed

lemma z_object_names_field:
  assumes "(name, s) \<in> set shape"
    and "\<exists>found. s [name] (jget kvs name) = Inl found \<and> found \<noteq> []
           \<and> (\<forall>i \<in> set found. path i = [name])"
  shows "\<exists>issues. z_object shape [] (JObj kvs) = Inl issues \<and> [name] \<in> path ` set issues"
proof -
  from assms(2) obtain found where f: "s ([] @ [name]) (jget kvs name) = Inl found"
    "found \<noteq> []" "\<forall>i \<in> set found. path i = [name]" by auto
  from z_object_rejects[OF assms(1) f(1) f(2)]
  obtain issues where i: "z_object shape [] (JObj kvs) = Inl issues" "set found \<subseteq> set issues"
    by blast
  from f(2) obtain x where "x \<in> set found" by (cases found) auto
  with f(3) i(2) have "x \<in> set issues" "path x = [name]" by auto
  with i(1) show ?thesis by force
qed

section \<open>Properties of the endpoint registry\<close>

lemma urls_value: "urls = Inr urlsConfig"
  by (simp add: urls_def urlsSchema_def urlsConfig_def z_object_def z_default_def z_string_def
      jget_def)

lemma group_rejected:
  assumes "\<not> isObject v"
  shows "\<exists>found. z_object shape [g] v = Inl found \<and> found \<noteq> []
           \<and> (\<forall>i \<in> set found. path i = [g])"
  using assms by (cases v) (simp_all add: z_object_def isObject_def)

text \<open>
  Claim C3 says that a group left out of the input has its entries filled with the
  defaults. Counterexample: the input without the group \<open>auth\<close> is rejected, with an issue
  for \<open>auth\<close>; the schema gives defaults to the leaves, not to the groups.
\<close>

theorem urls_defaults_group_omitted_counterexample:
  "urlsSchema []
     (JObj [(''users'', JObj [(''profile'', JStr ''users/profile''), (''create'', JStr ''users''),
                             (''update'', JStr ''users''), (''delete'', JStr ''users'')]),
            (''template'', JObj [(''getData'', JStr ''template/data''),
                                (''postData'', JStr ''template/data''),
                                (''updateData'', JStr ''template/data''),
                                (''deleteData'', JStr ''template/data'')])])
     = Inl [\<lparr> code = InvalidType, path = [''auth''] \<rparr>]"
  by (simp add: urlsSchema_def z_object_def z_default_def z_string_def jget_def)

text \<open>
  Claim C3, amended. For every input in which the three groups are objects and every leaf
  of the schema is a string or is left out, the parse succeeds, every leaf left out has the
  default path of the schema, every leaf given keeps its value, and the result has every
  key the schema declares, and no other. (A group may be the empty object: all its entries
  are then the defaults.) For every input in which one of the three groups is left out, or
  is anything but an object, the parse fails with an issue whose path is that group.
\<close>

theorem urls_leaf_defaults:
  "(jget kvs ''auth'' = JObj a \<and> jget kvs ''users'' = JObj u \<and> jget kvs ''template'' = JObj t
      \<and> (\<forall>k \<in> set [''login'', ''logout'', ''refresh''].
            jget a k = JUndefined \<or> isString (jget a k))
      \<and> (\<forall>k \<in> set [''profile'', ''create'', ''update'', ''delete''].
            jget u k = JUndefined \<or> isString (jget u k))
      \<and> (\<forall>k \<in> set [''getData'', ''postData'', ''updateData'', ''deleteData''].
            jget t k = JUndefined \<or> isString (jget t k)) \<longrightarrow>
      urlsSchema [] (JObj kvs) =
        Inr (JObj
          [(''auth'', JObj
              [(''login'', orDefault (jget a ''login'') ''auth/login''),
               (''logout'', orDefault (jget a ''logout'') ''auth/logout''),
               (''refresh'', orDefault (jget a ''refresh'') ''auth/refresh'')]),
           (''users'', JObj
              [(''profile'', orDefault (jget u ''profile'') ''users/profile''),
               (''create'', orDefault (jget u ''create'') ''users''),
               (''update'', orDefault (jget u ''update'') ''users''),
               (''delete'', orDefault (jget u ''delete'') ''users'')]),
           (''template'', JObj
              [(''getData'', orDefault (jget t ''getData'') ''template/data''),
               (''postData'', orDefault (jget t ''postData'') ''template/data''),
               (''updateData'', orDefault (jget t ''updateData'') ''template/data''),
               (''deleteData'', orDefault (jget t ''deleteData'') ''template/data'')])]))
   \<and> (\<forall>g \<in> set [''auth'', ''users'', ''template''].
        jget kvs g = JUndefined \<or> \<not> isObject (jget kvs g) \<longrightarrow>
        (\<exists>issues. urlsSchema [] (JObj kvs) = Inl issues \<and> [g] \<in> path ` set issues))"
proof (intro conjI impI ballI)
  assume h: "jget kvs ''auth'' = JObj a \<and> jget kvs ''users'' = JObj u
      \<and> jget kvs ''template'' = JObj t
      \<and> (\<forall>k \<in> set [''login'', ''logout'', ''refresh''].
            jget a k = JUndefined \<or> isString (jget a k))
      \<and> (\<forall>k \<in> set [''profile'', ''create'', ''update'', ''delete''].
            jget u k = JUndefined \<or> isString (jget u k))
      \<and> (\<forall>k \<in> set [''getData'', ''postData'', ''updateData'', ''deleteData''].
            jget t k = JUndefined \<or> isString (jget t k))"
  have auth: "z_object
         [(''login'', z_default (z_string []) (JStr ''auth/login'')),
          (''logout'', z_default (z_string []) (JStr ''auth/logout'')),
          (''refresh'', z_default (z_string []) (JStr ''auth/refresh''))] [''auth''] (JObj a)
      = Inr (JObj
                 [(''login'', orDefault (jget a ''login'') ''auth/login''),
                  (''logout'', orDefault (jget a ''logout'') ''auth/logout''),
                  (''refresh'', orDefault (jget a ''refresh'') ''auth/refresh'')])"
    using h by (simp add: z_object_def leaf_default)
  have users: "z_object
         [(''profile'', z_default (z_string []) (JStr ''users/profile'')),
          (''create'', z_default (z_string []) (JStr ''users'')),
          (''update'', z_default (z_string []) (JStr ''users'')),
          (''delete'', z_default (z_string []) (JStr ''users''))] [''users''] (JObj u)
      = Inr (JObj
                 [(''profile'', orDefault (jget u ''profile'') ''users/profile''),
                  (''create'', orDefault (jget u ''create'') ''users''),
                  (''update'', orDefault (jget u ''update'') ''users''),
                  (''delete'', orDefault (jget u ''delete'') ''users'')])"
    using h by (simp add: z_object_def leaf_default)
  have template: "z_object
         [(''getData'', z_default (z_string []) (JStr ''template/data'')),
          (''postData'', z_default (z_string []) (JStr ''template/data'')),
          (''updateData'', z_default (z_string []) (JStr ''template/data'')),
          (''deleteData'', z_default (z_string []) (JStr ''template/data''))] [''template''] (JObj t)
      = Inr (JObj
                 [(''getData'', orDefault (jget t ''getData'') ''template/data''),
                  (''postData'', orDefault (jget t ''postData'') ''template/data''),
                  (''updateData'', orDefault (jget t ''updateData'') ''template/data''),
                  (''deleteData'', orDefault (jget t ''deleteData'') ''template/data'')])"
    using h by (simp add: z_object_def leaf_default)
  from h have g: "jget kvs ''auth'' = JObj a" "jget kvs ''users'' = JObj u"
    "jget kvs ''template'' = JObj t" by simp_all
  show "urlsSchema [] (JObj kvs) =
        Inr (JObj
          [(''auth'', JObj
              [(''login'', orDefault (jget a ''login'') ''auth/login''),
               (''logout'', orDefault (jget a ''logout'') ''auth/logout''),
               (''refresh'', orDefault (jget a ''refresh'') ''auth/refresh'')]),
           (''users'', JObj
              [(''profile'', orDefault (jget u ''profile'') ''users/profile''),
               (''create'', orDefault (jget u ''create'') ''users''),
               (''update'', orDefault (jget u ''update'') ''users''),
               (''delete'', orDefault (jget u ''delete'') ''users'')]),
           (''template'', JObj
              [(''getData'', orDefault (jget t ''getData'') ''template/data''),
               (''postData'', orDefault (jget t ''postData'') ''template/data''),
               (''updateData'', orDefault (jget t ''updateData'') ''template/data''),
               (''deleteData'', orDefault (jget t ''deleteData'') ''template/data'')])])"
    unfolding urlsSchema_def
    by (simp add: z_object_def[of _ "[]"] g auth users template)
next
  fix g
  assume g: "g \<in> set [''auth'', ''users'', ''template'']"
    and miss: "jget kvs g = JUndefined \<or> \<not> isObject (jget kvs g)"
  from miss have no: "\<not> isObject (jget kvs g)" by (auto simp: isObject_def)
  from g obtain shape where
    s: "(g, z_object shape) \<in> set
         [(''auth'', z_object
             [(''login'', z_default (z_string []) (JStr ''auth/login'')),
              (''logout'', z_default (z_string []) (JStr ''auth/logout'')),
              (''refresh'', z_default (z_string []) (JStr ''auth/refresh''))]),
          (''users'', z_object
             [(''profile'', z_default (z_string []) (JStr ''users/profile'')),
              (''create'', z_default (z_string []) (JStr ''users'')),
              (''update'', z_default (z_string []) (JStr ''users'')),
              (''delete'', z_default (z_string []) (JStr ''users''))]),
          (''template'', z_object
             [(''getData'', z_default (z_string []) (JStr ''template/data'')),
              (''postData'', z_default (z_string []) (JStr ''template/data'')),
              (''updateData'', z_default (z_string []) (JStr ''template/data'')),
              (''deleteData'', z_default (z_string []) (JStr ''template/data''))])]"
    by auto
  show "\<exists>issues. urlsSchema [] (JObj kvs) = Inl issues \<and> [g] \<in> path ` set issues"
    unfolding urlsSchema_def
    by (rule z_object_names_field[OF s group_rejected[OF no]])
qed

text \<open>
  Witness for C3: three empty groups but for one leaf, \<open>users.profile\<close>, and a key the
  schema does not declare; then an input that leaves out \<open>users\<close> and \<open>template\<close>.
\<close>

theorem urls_leaf_defaults_witness:
  "urlsSchema []
     (JObj [(''auth'', JObj []), (''users'', JObj [(''profile'', JStr ''me'')]),
            (''template'', JObj []), (''extra'', JNum 1)])
   = Inr (JObj
       [(''auth'', JObj
           [(''login'', JStr ''auth/login''),
            (''logout'', JStr ''auth/logout''),
            (''refresh'', JStr ''auth/refresh'')]),
        (''users'', JObj
           [(''profile'', JStr ''me''),
            (''create'', JStr ''users''),
            (''update'', JStr ''users''),
            (''delete'', JStr ''users'')]),
        (''template'', JObj
           [(''getData'', JStr ''template/data''),
            (''postData'', JStr ''template/data''),
            (''updateData'', JStr ''template/data''),
            (''deleteData'', JStr ''template/data'')])])
   \<and> (\<exists>issues. urlsSchema [] (JObj [(''auth'', JObj [])]) = Inl issues
         \<and> [''users''] \<in> path ` set issues)
   \<and> (\<exists>issues. urlsSchema [] (JObj [(''auth'', JObj [])]) = Inl issues
         \<and> [''template''] \<in> path ` set issues)"
  using urls_leaf_defaults[of
      "[(''auth'', JObj []), (''users'', JObj [(''profile'', JStr ''me'')]),
        (''template'', JObj []), (''extra'', JNum 1)]"
      "[]" "[(''profile'', JStr ''me'')]" "[]"]
    urls_leaf_defaults[of "[(''auth'', JObj [])]"]
  by (simp add: jget_def orDefault_def isString_def isObject_def)

section \<open>Properties of the environment loader\<close>

lemma jget_env_object:
  "env_object penv = JObj kvs \<Longrightarrow>
   jget kvs name = (case penv_get penv name of None \<Rightarrow> JUndefined | Some v \<Rightarrow> JStr v)"
  by (auto simp: env_object_def jget_def penv_get_def map_of_map split: option.splits)

lemma env_accepts:
  assumes "penv_get (loadDotenv file penv) ''BASE_URL'' = Some b" "isUrl b"
    and "penv_get (loadDotenv file penv) ''API_BASE_URL'' = Some a" "isUrl a"
    and "penv_get (loadDotenv file penv) ''MAIN_USER_LOGIN'' = Some l" "l \<noteq> []"
    and "penv_get (loadDotenv file penv) ''MAIN_USER_PASSWORD'' = Some w" "w \<noteq> []"
  shows "env isUrl file penv =
           Inr (JObj [(''BASE_URL'', JStr b), (''API_BASE_URL'', JStr a),
                      (''MAIN_USER_LOGIN'', JStr l), (''MAIN_USER_PASSWORD'', JStr w)])"
  using assms
  by (simp add: env_def schema_def z_object_def env_object_def z_string_def
      jget_env_object[OF env_object_def] Suc_le_eq)

lemma url_field_rejected:
  assumes "\<not> (\<exists>u. penv_get penv name = Some u \<and> isUrl u)" and "env_object penv = JObj kvs"
  shows "\<exists>found. z_string [Url isUrl] [name] (jget kvs name) = Inl found
            \<and> found \<noteq> [] \<and> (\<forall>i \<in> set found. path i = [name])"
  using assms
  by (auto simp: jget_env_object z_string_def split: option.splits)

lemma min_field_rejected:
  assumes "\<not> (\<exists>u. penv_get penv name = Some u \<and> u \<noteq> [])" and "env_object penv = JObj kvs"
  shows "\<exists>found. z_string [Min 1] [name] (jget kvs name) = Inl found
            \<and> found \<noteq> [] \<and> (\<forall>i \<in> set found. path i = [name])"
  using assms
  by (auto simp: jget_env_object z_string_def split: option.splits)

lemma env_rejects_url:
  assumes "\<not> (\<exists>u. penv_get (loadDotenv file penv) name = Some u \<and> isUrl u)"
    and "name = ''BASE_URL'' \<or> name = ''API_BASE_URL''"
  shows "\<exists>issues. env isUrl file penv = Inl issues \<and> [name] \<in> path ` set issues"
  unfolding env_def schema_def env_object_def
proof (rule z_object_names_field[where s = "z_string [Url isUrl]"])
  show "(name, z_string [Url isUrl]) \<in> set [(''BASE_URL'', z_string [Url isUrl]),
      (''API_BASE_URL'', z_string [Url isUrl]), (''MAIN_USER_LOGIN'', z_string [Min 1]),
      (''MAIN_USER_PASSWORD'', z_string [Min 1])]"
    using assms(2) by auto
next
  show "\<exists>found. z_string [Url isUrl] [name]
         (jget (map (\<lambda>(k, v). (k, JStr v)) (loadDotenv file penv)) name) = Inl found
       \<and> found \<noteq> [] \<and> (\<forall>i \<in> set found. path i = [name])"
    by (rule url_field_rejected[OF assms(1) env_object_def])
qed

lemma env_rejects_min:
  assumes "\<not> (\<exists>u. penv_get (loadDotenv file penv) name = Some u \<and> u \<noteq> [])"
    and "name = ''MAIN_USER_LOGIN'' \<or> name = ''MAIN_USER_PASSWORD''"
  shows "\<exists>issues. env isUrl file penv = Inl issues \<and> [name] \<in> path ` set issues"
  unfolding env_def schema_def env_object_def
proof (rule z_object_names_field[where s = "z_string [Min 1]"])
  show "(name, z_string [Min 1]) \<in> set [(''BASE_URL'', z_string [Url isUrl]),
      (''API_BASE_URL'', z_string [Url isUrl]), (''MAIN_USER_LOGIN'', z_string [Min 1]),
      (''MAIN_USER_PASSWORD'', z_string [Min 1])]"
    using assms(2) by auto
next
  show "\<exists>found. z_string [Min 1] [name]
         (jget (map (\<lambda>(k, v). (k, JStr v)) (loadDotenv file penv)) name) = Inl found
       \<and> found \<noteq> [] \<and> (\<forall>i \<in> set found. path i = [name])"
    by (rule min_field_rejected[OF assms(1) env_object_def])
qed

text \<open>
  Claim C4. Let \<open>vars\<close> be the environment after the file was loaded. If \<open>BASE_URL\<close> and
  \<open>API_BASE_URL\<close> are set to absolute URLs and \<open>MAIN_USER_LOGIN\<close> and
  \<open>MAIN_USER_PASSWORD\<close> to non-empty strings, the loader returns the object with exactly
  these four fields and their values. If one of the four is missing or malformed, the
  loader returns no object at all: it fails with a list of issues, one of which has that
  variable's name as its path.
\<close>

theorem env_loader_contract:
  assumes "vars = loadDotenv file penv"
  shows "(\<forall>b a l w.
            penv_get vars ''BASE_URL'' = Some b \<and> isUrl b
            \<and> penv_get vars ''API_BASE_URL'' = Some a \<and> isUrl a
            \<and> penv_get vars ''MAIN_USER_LOGIN'' = Some l \<and> l \<noteq> []
            \<and> penv_get vars ''MAIN_USER_PASSWORD'' = Some w \<and> w \<noteq> [] \<longrightarrow>
            env isUrl file penv =
              Inr (JObj [(''BASE_URL'', JStr b), (''API_BASE_URL'', JStr a),
                         (''MAIN_USER_LOGIN'', JStr l), (''MAIN_USER_PASSWORD'', JStr w)]))
       \<and> (\<not> (\<exists>u. penv_get vars ''BASE_URL'' = Some u \<and> isUrl u) \<longrightarrow>
            (\<exists>issues. env isUrl file penv = Inl issues \<and> [''BASE_URL''] \<in> path ` set issues))
       \<and> (\<not> (\<exists>u. penv_get vars ''API_BASE_URL'' = Some u \<and> isUrl u) \<longrightarrow>
            (\<exists>issues. env isUrl file penv = Inl issues \<and> [''API_BASE_URL''] \<in> path ` set issues))
       \<and> (\<not> (\<exists>u. penv_get vars ''MAIN_USER_LOGIN'' = Some u \<and> u \<noteq> []) \<longrightarrow>
            (\<exists>issues. env isUrl file penv = Inl issues
               \<and> [''MAIN_USER_LOGIN''] \<in> path ` set issues))
       \<and> (\<not> (\<exists>u. penv_get vars ''MAIN_USER_PASSWORD'' = Some u \<and> u \<noteq> []) \<longrightarrow>
            (\<exists>issues. env isUrl file penv = Inl issues
               \<and> [''MAIN_USER_PASSWORD''] \<in> path ` set issues))"
  unfolding assms
  using env_accepts[of "file" penv _ isUrl]
    env_rejects_url[of "file" penv "''BASE_URL''" isUrl]
    env_rejects_url[of "file" penv "''API_BASE_URL''" isUrl]
    env_rejects_min[of "file" penv "''MAIN_USER_LOGIN''" isUrl]
    env_rejects_min[of "file" penv "''MAIN_USER_PASSWORD''" isUrl]
  by blast

text \<open>
  Witness for C4, on the specification's scenario: the four variables are returned
  unchanged, and without \<open>MAIN_USER_PASSWORD\<close> the loader fails with an issue naming it.
\<close>

theorem env_loader_contract_witness:
  "env https_prefixed [] scenario_env =
     Inr (JObj [(''BASE_URL'', JStr ''https://x.test''),
                (''API_BASE_URL'', JStr ''https://x.test/api''),
                (''MAIN_USER_LOGIN'', JStr ''u@x.test''),
                (''MAIN_USER_PASSWORD'', JStr ''p'')])
   \<and> (\<exists>issues. env https_prefixed [] (butlast scenario_env) = Inl issues
         \<and> [''MAIN_USER_PASSWORD''] \<in> path ` set issues)"
  using env_loader_contract[of scenario_env "[]" scenario_env https_prefixed]
    env_loader_contract[of "butlast scenario_env" "[]" "butlast scenario_env" https_prefixed]
  by (simp add: loadDotenv_def scenario_env_def penv_get_def https_prefixed_def)

end
